theory Spec2Isabelle
  imports Main "HOL-Library.Sublist"
begin

section \<open>Data model of the dashboard (src/pages/Dashboard.tsx)\<close>

text \<open>
  The interfaces \<open>Task\<close> and \<open>Profile\<close> of the source. The fields \<open>status\<close> and
  \<open>priority\<close> are string-literal unions in TypeScript; the type is erased at run time and
  \<open>loadTasks\<close> casts the fetched rows without checking them, so both are strings here and a
  restriction to the three defined values is written as a hypothesis where a claim needs it.
  \<open>due_date\<close> is \<open>string | null\<close>. The field \<open>id\<close> is renamed (\<open>id\<close> is the identity
  function of HOL).
\<close>

record task =
  task_id :: string
  title :: string
  description :: string
  status :: string
  priority :: string
  due_date :: "string option"
  created_at :: string
  updated_at :: string
  user_id :: string

record profile =
  profile_id :: string
  first_name :: string
  last_name :: string
  email :: string

text \<open>The authenticated user handed out by \<open>useAuth()\<close>; only \<open>user.id\<close> is read.\<close>

record auth_user =
  uid :: string

text \<open>The edit buffers \<open>taskForm\<close> and \<open>profileForm\<close> (lines 48-65).\<close>

record task_form =
  form_title :: string
  form_description :: string
  form_status :: string
  form_priority :: string
  form_due_date :: string

record profile_form =
  form_first_name :: string
  form_last_name :: string
  form_email :: string

text \<open>
  The object \<open>taskData\<close> built by \<open>handleCreateTask\<close> (lines 143-147): the buffer spread,
  the owner, and \<open>due_date\<close> overwritten with \<open>taskForm.due_date || null\<close>.
\<close>

record task_data =
  data_title :: string
  data_description :: string
  data_status :: string
  data_priority :: string
  data_user_id :: string
  data_due_date :: "string option"

subsection \<open>The remote collaborator\<close>

text \<open>
  The functions imported from \<open>@/lib/supabase\<close> are not part of the component: they are
  taken as parameters. Each returns an object \<open>{ data, error }\<close>, either of which may be
  \<open>null\<close>. A remote is a record of such functions, so that one remote value stands for one
  fixed behaviour of the backend.
\<close>

record remote_error =
  message :: string

record 'a response =
  data :: "'a option"
  error :: "remote_error option"

record remote =
  getTasks :: "string \<Rightarrow> task list response"
  createTask :: "task_data \<Rightarrow> task response"
  updateTask :: "string \<Rightarrow> task_form \<Rightarrow> task response"
  deleteTask :: "string \<Rightarrow> unit response"
  getProfile :: "string \<Rightarrow> profile response"

text \<open>The requests a handler hands to the remote, in the order they are issued.\<close>

datatype remote_call =
    GetTasks string
  | CreateTask task_data
  | UpdateTask string task_form
  | DeleteTask string
  | GetProfile string

subsection \<open>Notifications and the console\<close>

datatype toast_variant = Default | Destructive

record toast_msg =
  toast_title :: string
  toast_description :: string
  variant :: toast_variant

record console_entry =
  console_text :: string
  console_error :: remote_error

subsection \<open>Component state\<close>

text \<open>
  One field for each \<open>useState\<close> cell (lines 39-65), the user of the authentication
  context, and three logs that make the effects of a handler visible: the notifications
  raised through \<open>toast\<close>, the lines written with \<open>console.error\<close>, and the requests
  handed to the remote.
\<close>

record dashboard =
  user :: "auth_user option"
  tasks :: "task list"
  profile :: "profile option"
  loading :: bool
  searchTerm :: string
  statusFilter :: string
  priorityFilter :: string
  isTaskDialogOpen :: bool
  isProfileDialogOpen :: bool
  editingTask :: "task option"
  taskForm :: task_form
  profileForm :: profile_form
  toasts :: "toast_msg list"
  console :: "console_entry list"
  calls :: "remote_call list"

definition empty_form :: task_form where
  "empty_form =
     \<lparr>form_title = '''', form_description = '''', form_status = ''pending'',
      form_priority = ''medium'', form_due_date = ''''\<rparr>"

text \<open>The state of a freshly mounted component for a given authentication context.\<close>

definition initial :: "auth_user option \<Rightarrow> dashboard" where
  "initial u =
     \<lparr>user = u, tasks = [], profile = None, loading = True, searchTerm = '''',
      statusFilter = ''all'', priorityFilter = ''all'', isTaskDialogOpen = False,
      isProfileDialogOpen = False, editingTask = None, taskForm = empty_form,
      profileForm = \<lparr>form_first_name = '''', form_last_name = '''', form_email = ''''\<rparr>,
      toasts = [], console = [], calls = []\<rparr>"

section \<open>Derived views\<close>

subsection \<open>String operations\<close>

text \<open>
  \<open>String.prototype.includes\<close>: the argument occurs as a contiguous run of the receiver
  (the name is suffixed: \<open>includes\<close> is a keyword of Isabelle).
\<close>

fun includes_str :: "string \<Rightarrow> string \<Rightarrow> bool" where
  "includes_str [] t = (t = [])"
| "includes_str (c # s) t = (prefix t (c # s) \<or> includes_str s t)"

text \<open>
  \<open>String.prototype.toLowerCase\<close> and \<open>String.prototype.trim\<close> are built-ins of the
  language with Unicode tables behind them. The functions of the component take them as
  parameters (\<open>lc\<close> and \<open>tr\<close>). The definitions below are their restriction to ASCII,
  used to run the component on concrete inputs.
\<close>

definition ascii_lower :: "char \<Rightarrow> char" where
  "ascii_lower c =
     (let n = (of_char c :: nat) in if 65 \<le> n \<and> n \<le> 90 then char_of (n + 32) else c)"

definition ascii_toLowerCase :: "string \<Rightarrow> string" where
  "ascii_toLowerCase s = map ascii_lower s"

definition ascii_space :: "char \<Rightarrow> bool" where
  "ascii_space c = ((of_char c :: nat) \<in> {9, 10, 11, 12, 13, 32})"

definition ascii_trim :: "string \<Rightarrow> string" where
  "ascii_trim s = rev (dropWhile ascii_space (rev (dropWhile ascii_space s)))"

subsection \<open>filteredTasks (lines 249-255)\<close>

definition matchesSearch :: "(string \<Rightarrow> string) \<Rightarrow> string \<Rightarrow> task \<Rightarrow> bool" where
  "matchesSearch lc term t =
     (includes_str (lc (title t)) (lc term) \<or> includes_str (lc (description t)) (lc term))"

definition matchesStatus :: "string \<Rightarrow> task \<Rightarrow> bool" where
  "matchesStatus sf t = (sf = ''all'' \<or> status t = sf)"

definition matchesPriority :: "string \<Rightarrow> task \<Rightarrow> bool" where
  "matchesPriority pf t = (pf = ''all'' \<or> priority t = pf)"

definition filteredTasks :: "(string \<Rightarrow> string) \<Rightarrow> dashboard \<Rightarrow> task list" where
  "filteredTasks lc s =
     filter (\<lambda>t. matchesSearch lc (searchTerm s) t \<and> matchesStatus (statusFilter s) t
                  \<and> matchesPriority (priorityFilter s) t)
            (tasks s)"

text \<open>
  The three predicates in the words of the specification: the search predicate has an
  explicit clause for the empty search term.
\<close>

definition spec_matches :: "(string \<Rightarrow> string) \<Rightarrow> string \<Rightarrow> string \<Rightarrow> string \<Rightarrow> task \<Rightarrow> bool" where
  "spec_matches lc term sf pf t =
     ((sf = ''all'' \<or> status t = sf) \<and>
      (pf = ''all'' \<or> priority t = pf) \<and>
      (term = [] \<or> includes_str (lc (title t)) (lc term) \<or> includes_str (lc (description t)) (lc term)))"

subsection \<open>taskStats (lines 302-307)\<close>

record task_stats =
  total_tasks :: nat
  completed :: nat
  pending :: nat
  inProgress :: nat

definition taskStats :: "dashboard \<Rightarrow> task_stats" where
  "taskStats s =
     \<lparr>total_tasks = length (tasks s),
      completed = length (filter (\<lambda>t. status t = ''completed'') (tasks s)),
      pending = length (filter (\<lambda>t. status t = ''pending'') (tasks s)),
      inProgress = length (filter (\<lambda>t. status t = ''in_progress'') (tasks s))\<rparr>"

subsection \<open>The profile button (line 331)\<close>

text \<open>
  \<open>profile?.first_name ? `${profile.first_name} ${profile.last_name}` : 'Profile'\<close>:
  the placeholder is shown when no profile is held or its first name is empty.
\<close>

definition profileLabel :: "dashboard \<Rightarrow> string" where
  "profileLabel s =
     (case profile s of
        None \<Rightarrow> ''Profile''
      | Some p \<Rightarrow>
          if first_name p \<noteq> [] then first_name p @ '' '' @ last_name p else ''Profile'')"

section \<open>Handlers\<close>

text \<open>
  A handler is a function from the state before the event to the state after it, run to
  completion: the remote's answer is read from the \<open>remote\<close> parameter at the point of the
  \<open>await\<close>. A call of \<open>loadTasks()\<close> that the source starts without awaiting it is run
  in place, after the state updates that precede it.
\<close>

definition toast :: "toast_msg \<Rightarrow> dashboard \<Rightarrow> dashboard" where
  "toast m s = s\<lparr>toasts := toasts s @ [m]\<rparr>"

definition issue :: "remote_call \<Rightarrow> dashboard \<Rightarrow> dashboard" where
  "issue c s = s\<lparr>calls := calls s @ [c]\<rparr>"

subsection \<open>loadTasks (lines 109-122)\<close>

definition loadTasks :: "remote \<Rightarrow> dashboard \<Rightarrow> dashboard" where
  "loadTasks r s =
     (case user s of
        None \<Rightarrow> s
      | Some u \<Rightarrow>
          (let res = getTasks r (uid u);
               s1 = issue (GetTasks (uid u)) s
           in case error res of
                Some e \<Rightarrow>
                  toast \<lparr>toast_title = ''Error loading tasks'',
                         toast_description = message e, variant = Destructive\<rparr> s1
              | None \<Rightarrow>
                  s1\<lparr>tasks := (case data res of None \<Rightarrow> [] | Some d \<Rightarrow> d)\<rparr>))"

subsection \<open>loadProfile (lines 124-138)\<close>

text \<open>
  The profile fields are strings, on which \<open>data.first_name || ''\<close> is the identity.
\<close>

definition loadProfile :: "remote \<Rightarrow> dashboard \<Rightarrow> dashboard" where
  "loadProfile r s =
     (case user s of
        None \<Rightarrow> s
      | Some u \<Rightarrow>
          (let res = getProfile r (uid u);
               s1 = issue (GetProfile (uid u)) s
           in case error res of
                Some e \<Rightarrow>
                  s1\<lparr>console := console s1 @
                       [\<lparr>console_text = ''Error loading profile:'', console_error = e\<rparr>]\<rparr>
              | None \<Rightarrow>
                  (case data res of
                     None \<Rightarrow> s1
                   | Some d \<Rightarrow>
                       s1\<lparr>profile := Some d,
                          profileForm :=
                            \<lparr>form_first_name = first_name d, form_last_name = last_name d,
                             form_email = email d\<rparr>\<rparr>)))"

subsection \<open>handleCreateTask (lines 140-171)\<close>

definition taskData :: "auth_user \<Rightarrow> task_form \<Rightarrow> task_data" where
  "taskData u f =
     \<lparr>data_title = form_title f, data_description = form_description f,
      data_status = form_status f, data_priority = form_priority f,
      data_user_id = uid u,
      data_due_date = (if form_due_date f = [] then None else Some (form_due_date f))\<rparr>"

definition handleCreateTask :: "(string \<Rightarrow> string) \<Rightarrow> remote \<Rightarrow> dashboard \<Rightarrow> dashboard" where
  "handleCreateTask tr r s =
     (case user s of
        None \<Rightarrow> s
      | Some u \<Rightarrow>
          if tr (form_title (taskForm s)) = [] then s
          else
            (let td = taskData u (taskForm s);
                 res = createTask r td;
                 s1 = issue (CreateTask td) s
             in case error res of
                  Some e \<Rightarrow>
                    toast \<lparr>toast_title = ''Error creating task'',
                           toast_description = message e, variant = Destructive\<rparr> s1
                | None \<Rightarrow>
                    loadTasks r
                      ((toast \<lparr>toast_title = ''Task created'',
                               toast_description = ''Your task has been created successfully.'',
                               variant = Default\<rparr> s1)
                       \<lparr>taskForm := empty_form, isTaskDialogOpen := False\<rparr>)))"

subsection \<open>handleUpdateTask (lines 173-199)\<close>

definition handleUpdateTask :: "remote \<Rightarrow> dashboard \<Rightarrow> dashboard" where
  "handleUpdateTask r s =
     (case editingTask s of
        None \<Rightarrow> s
      | Some et \<Rightarrow>
          (let res = updateTask r (task_id et) (taskForm s);
               s1 = issue (UpdateTask (task_id et) (taskForm s)) s
           in case error res of
                Some e \<Rightarrow>
                  toast \<lparr>toast_title = ''Error updating task'',
                         toast_description = message e, variant = Destructive\<rparr> s1
              | None \<Rightarrow>
                  loadTasks r
                    ((toast \<lparr>toast_title = ''Task updated'',
                             toast_description = ''Your task has been updated successfully.'',
                             variant = Default\<rparr> s1)
                     \<lparr>editingTask := None, taskForm := empty_form,
                      isTaskDialogOpen := False\<rparr>)))"

subsection \<open>handleDeleteTask (lines 201-216)\<close>

definition handleDeleteTask :: "remote \<Rightarrow> string \<Rightarrow> dashboard \<Rightarrow> dashboard" where
  "handleDeleteTask r taskId s =
     (let res = deleteTask r taskId;
          s1 = issue (DeleteTask taskId) s
      in case error res of
           Some e \<Rightarrow>
             toast \<lparr>toast_title = ''Error deleting task'',
                    toast_description = message e, variant = Destructive\<rparr> s1
         | None \<Rightarrow>
             loadTasks r
               (toast \<lparr>toast_title = ''Task deleted'',
                       toast_description = ''Your task has been deleted successfully.'',
                       variant = Default\<rparr> s1))"

subsection \<open>openTaskDialog (lines 279-300)\<close>

definition openTaskDialog :: "task option \<Rightarrow> dashboard \<Rightarrow> dashboard" where
  "openTaskDialog arg s =
     (case arg of
        Some t \<Rightarrow>
          s\<lparr>editingTask := Some t,
            taskForm :=
              \<lparr>form_title = title t, form_description = description t,
               form_status = status t, form_priority = priority t,
               form_due_date = (case due_date t of None \<Rightarrow> '''' | Some d \<Rightarrow> d)\<rparr>,
            isTaskDialogOpen := True\<rparr>
      | None \<Rightarrow>
          s\<lparr>editingTask := None, taskForm := empty_form, isTaskDialogOpen := True\<rparr>)"

text \<open>
  The title input of the task dialog (line 457):
  \<open>onChange={(e) => setTaskForm({ ...taskForm, title: e.target.value })}\<close>.
\<close>

definition changeTitle :: "string \<Rightarrow> dashboard \<Rightarrow> dashboard" where
  "changeTitle v s = s\<lparr>taskForm := (taskForm s)\<lparr>form_title := v\<rparr>\<rparr>"

text \<open>
  The button of the task dialog (line 512):
  \<open>onClick={editingTask ? handleUpdateTask : handleCreateTask}\<close>.
\<close>

definition submitTaskDialog :: "(string \<Rightarrow> string) \<Rightarrow> remote \<Rightarrow> dashboard \<Rightarrow> dashboard" where
  "submitTaskDialog tr r s =
     (case editingTask s of
        Some _ \<Rightarrow> handleUpdateTask r s
      | None \<Rightarrow> handleCreateTask tr r s)"

section \<open>Concrete inputs\<close>

text \<open>
  A user, two tasks, a profile and two remotes (one that answers every request, one that
  refuses every request), on which the handlers and views are run below.
\<close>

definition demo_user :: auth_user where
  "demo_user = \<lparr>uid = ''u1''\<rparr>"

definition task1 :: task where
  "task1 =
     \<lparr>task_id = ''1'', title = ''Write spec'', description = '''', status = ''pending'',
      priority = ''high'', due_date = None, created_at = ''2024-01-01'',
      updated_at = ''2024-01-01'', user_id = ''u1''\<rparr>"

definition task2 :: task where
  "task2 =
     \<lparr>task_id = ''2'', title = ''Ship'', description = ''Tag the RELEASE'',
      status = ''completed'', priority = ''low'', due_date = Some ''2024-02-01'',
      created_at = ''2024-01-02'', updated_at = ''2024-01-03'', user_id = ''u1''\<rparr>"

definition demo_profile :: profile where
  "demo_profile =
     \<lparr>profile_id = ''u1'', first_name = ''Ann'', last_name = ''Lee'',
      email = ''ann@example.org''\<rparr>"

definition denied :: remote_error where
  "denied = \<lparr>message = ''permission denied''\<rparr>"

definition ok_remote :: "task list \<Rightarrow> remote" where
  "ok_remote ts =
     \<lparr>getTasks = (\<lambda>_. \<lparr>data = Some ts, error = None\<rparr>),
      createTask = (\<lambda>_. \<lparr>data = None, error = None\<rparr>),
      updateTask = (\<lambda>_ _. \<lparr>data = None, error = None\<rparr>),
      deleteTask = (\<lambda>_. \<lparr>data = None, error = None\<rparr>),
      getProfile = (\<lambda>_. \<lparr>data = Some demo_profile, error = None\<rparr>)\<rparr>"

definition failing_remote :: remote where
  "failing_remote =
     \<lparr>getTasks = (\<lambda>_. \<lparr>data = None, error = Some denied\<rparr>),
      createTask = (\<lambda>_. \<lparr>data = None, error = Some denied\<rparr>),
      updateTask = (\<lambda>_ _. \<lparr>data = None, error = Some denied\<rparr>),
      deleteTask = (\<lambda>_. \<lparr>data = None, error = Some denied\<rparr>),
      getProfile = (\<lambda>_. \<lparr>data = None, error = Some denied\<rparr>)\<rparr>"

definition demo :: dashboard where
  "demo = (initial (Some demo_user))\<lparr>tasks := [task1, task2]\<rparr>"

text \<open>A remote whose task list answers without an error and without a payload.\<close>

definition null_remote :: remote where
  "null_remote = (ok_remote [])\<lparr>getTasks := (\<lambda>_. \<lparr>data = None, error = None\<rparr>)\<rparr>"

text \<open>
  The edit button of the first task has been pressed (line 594); then the title input has
  been overwritten with two blanks.
\<close>

definition editing :: dashboard where
  "editing = openTaskDialog (Some task1) demo"

definition blank_edit :: dashboard where
  "blank_edit = changeTitle ''  '' editing"

section \<open>Facts about the string operations\<close>

text \<open>\<open>includes_str\<close> is the contiguous-substring relation.\<close>

lemma includes_str_iff: "includes_str s t \<longleftrightarrow> (\<exists>ps ss. s = ps @ t @ ss)"
proof -
  have "includes_str s t = sublist t s"
    by (induction s) (simp_all add: sublist_Cons_right)
  then show ?thesis by (simp add: sublist_def)
qed

lemma includes_str_empty: "includes_str s []"
  by (induction s) simp_all

lemma lower_empty: "ascii_toLowerCase [] = []"
  by (simp add: ascii_toLowerCase_def)

lemma lower_SPEC: "ascii_toLowerCase ''SPEC'' = ''spec''"
  by code_simp

lemma lower_title1: "ascii_toLowerCase ''Write spec'' = ''write spec''"
  by code_simp

lemma lower_title2: "ascii_toLowerCase ''Ship'' = ''ship''"
  by code_simp

lemma lower_descr2: "ascii_toLowerCase ''Tag the RELEASE'' = ''tag the release''"
  by code_simp

section \<open>The filtered view\<close>

lemma matches_agree:
  assumes "lc [] = []"
  shows "(matchesSearch lc term t \<and> matchesStatus sf t \<and> matchesPriority pf t)
         = spec_matches lc term sf pf t"
  using assms
  by (auto simp: matchesSearch_def matchesStatus_def matchesPriority_def spec_matches_def
                 includes_str_empty)

text \<open>
  Claim C1. For every state of the component (task sequence, search term, status filter,
  priority filter), \<open>filteredTasks\<close> is the input sequence filtered by the conjunction of
  the three predicates of the specification: it holds exactly the tasks that satisfy all
  three, in the order of the input. The lower-casing function is any function that sends
  the empty string to the empty string, as \<open>toLowerCase\<close> does; case-insensitive
  containment is containment of the lower-cased term in the lower-cased field.
\<close>

theorem filteredTasks_exact:
  assumes "lc [] = []"
  shows "filteredTasks lc s
           = filter (spec_matches lc (searchTerm s) (statusFilter s) (priorityFilter s)) (tasks s)
         \<and> set (filteredTasks lc s)
           = {t \<in> set (tasks s).
                spec_matches lc (searchTerm s) (statusFilter s) (priorityFilter s) t}
         \<and> subseq (filteredTasks lc s) (tasks s)"
proof -
  have eq: "filteredTasks lc s
      = filter (spec_matches lc (searchTerm s) (statusFilter s) (priorityFilter s)) (tasks s)"
    unfolding filteredTasks_def by (simp add: matches_agree [of lc, OF assms])
  then show ?thesis by simp
qed

theorem filteredTasks_exact_witness:
  "ascii_toLowerCase [] = [] \<and>
   filteredTasks ascii_toLowerCase (demo\<lparr>searchTerm := ''SPEC'', statusFilter := ''pending''\<rparr>)
     = [task1]"
proof -
  have h: "ascii_toLowerCase [] = []" by (simp add: ascii_toLowerCase_def)
  have "filter (spec_matches ascii_toLowerCase ''SPEC'' ''pending'' ''all'') [task1, task2] = [task1]"
    by (simp add: spec_matches_def task1_def task2_def lower_SPEC lower_title1 lower_title2
                  lower_descr2 lower_empty)
  with filteredTasks_exact [of ascii_toLowerCase
         "demo\<lparr>searchTerm := ''SPEC'', statusFilter := ''pending''\<rparr>", OF h]
  show ?thesis using h by (simp add: demo_def initial_def)
qed

text \<open>
  Claim C9. With an empty search term and both filters set to \<open>all\<close>, the filtered view is
  the whole task sequence, unchanged.
\<close>

theorem filteredTasks_all_pass:
  assumes "lc [] = []"
    and "searchTerm s = []" and "statusFilter s = ''all''" and "priorityFilter s = ''all''"
  shows "filteredTasks lc s = tasks s"
  using assms
  by (simp add: filteredTasks_def matchesSearch_def matchesStatus_def matchesPriority_def
                includes_str_empty)

theorem filteredTasks_all_pass_witness:
  "ascii_toLowerCase [] = [] \<and> searchTerm demo = [] \<and> statusFilter demo = ''all'' \<and>
   priorityFilter demo = ''all'' \<and> filteredTasks ascii_toLowerCase demo = [task1, task2]"
proof -
  have h: "ascii_toLowerCase [] = []" "searchTerm demo = []" "statusFilter demo = ''all''"
    "priorityFilter demo = ''all''"
    by (simp_all add: ascii_toLowerCase_def demo_def initial_def)
  have "tasks demo = [task1, task2]" by (simp add: demo_def initial_def)
  with filteredTasks_all_pass [of ascii_toLowerCase demo, OF h] h show ?thesis by simp
qed

section \<open>The counters\<close>

lemma status_partition:
  "\<forall>t \<in> set ts. status t \<in> {''pending'', ''in_progress'', ''completed''} \<Longrightarrow>
   length ts = length (filter (\<lambda>t. status t = ''completed'') ts)
             + length (filter (\<lambda>t. status t = ''pending'') ts)
             + length (filter (\<lambda>t. status t = ''in_progress'') ts)"
  by (induction ts) auto

text \<open>
  Claim C2. When every task of the sequence has one of the three statuses \<open>pending\<close>,
  \<open>in_progress\<close>, \<open>completed\<close>, the counters satisfy
  \<open>total = completed + pending + inProgress\<close>; \<open>total\<close> is the length of the sequence and
  each other counter is the number of tasks with that status.
\<close>

theorem taskStats_total:
  assumes "\<forall>t \<in> set (tasks s). status t \<in> {''pending'', ''in_progress'', ''completed''}"
  shows "total_tasks (taskStats s)
           = completed (taskStats s) + pending (taskStats s) + inProgress (taskStats s)
         \<and> total_tasks (taskStats s) = length (tasks s)
         \<and> completed (taskStats s) = length (filter (\<lambda>t. status t = ''completed'') (tasks s))
         \<and> pending (taskStats s) = length (filter (\<lambda>t. status t = ''pending'') (tasks s))
         \<and> inProgress (taskStats s) = length (filter (\<lambda>t. status t = ''in_progress'') (tasks s))"
  using status_partition [OF assms] by (simp add: taskStats_def)

theorem taskStats_total_witness:
  "list_all (\<lambda>t. status t \<in> {''pending'', ''in_progress'', ''completed''}) (tasks demo) \<and>
   total_tasks (taskStats demo) = 2 \<and>
   completed (taskStats demo) + pending (taskStats demo) + inProgress (taskStats demo) = 2"
proof -
  have h: "\<forall>t \<in> set (tasks demo). status t \<in> {''pending'', ''in_progress'', ''completed''}"
    by (simp add: demo_def initial_def task1_def task2_def)
  have "length (tasks demo) = 2" by (simp add: demo_def initial_def)
  with taskStats_total [OF h] h show ?thesis by (simp add: list_all_iff)
qed

text \<open>
  Claim C10. The counters are computed from the unfiltered task sequence: two states with
  the same task sequence have the same counters, whatever their search term and filters,
  and changing the search term and the filters of a state leaves its counters as they were.
\<close>

theorem taskStats_ignores_filters:
  "(tasks s' = tasks s \<longrightarrow> taskStats s' = taskStats s) \<and>
   taskStats (s\<lparr>searchTerm := a, statusFilter := b, priorityFilter := c\<rparr>) = taskStats s"
  by (simp add: taskStats_def)

theorem taskStats_ignores_filters_witness:
  "tasks (demo\<lparr>searchTerm := ''SPEC'', statusFilter := ''pending''\<rparr>) = tasks demo \<and>
   filteredTasks ascii_toLowerCase (demo\<lparr>searchTerm := ''SPEC'', statusFilter := ''pending''\<rparr>)
     \<noteq> filteredTasks ascii_toLowerCase demo \<and>
   taskStats (demo\<lparr>searchTerm := ''SPEC'', statusFilter := ''pending''\<rparr>) = taskStats demo"
proof -
  have h: "tasks (demo\<lparr>searchTerm := ''SPEC'', statusFilter := ''pending''\<rparr>) = tasks demo"
    by simp
  have "length (filteredTasks ascii_toLowerCase
                  (demo\<lparr>searchTerm := ''SPEC'', statusFilter := ''pending''\<rparr>)) \<le> 1"
    by (simp add: filteredTasks_def demo_def initial_def matchesStatus_def task1_def task2_def)
  moreover have "length (filteredTasks ascii_toLowerCase demo) = 2"
    by (simp add: filteredTasks_def demo_def initial_def matchesStatus_def matchesPriority_def
          matchesSearch_def lower_empty includes_str_empty)
  ultimately have "filteredTasks ascii_toLowerCase
                     (demo\<lparr>searchTerm := ''SPEC'', statusFilter := ''pending''\<rparr>)
     \<noteq> filteredTasks ascii_toLowerCase demo"
    by auto
  with taskStats_ignores_filters
         [of "demo\<lparr>searchTerm := ''SPEC'', statusFilter := ''pending''\<rparr>" demo] h
  show ?thesis by simp
qed

section \<open>Failure of a remote call\<close>

text \<open>Each handler, on the branch where its remote call answers with an error.\<close>

lemma loadTasks_failure:
  assumes "user s = Some u" and "error (getTasks r (uid u)) = Some e"
  shows "loadTasks r s =
           toast \<lparr>toast_title = ''Error loading tasks'', toast_description = message e,
                  variant = Destructive\<rparr> (issue (GetTasks (uid u)) s)"
  using assms by (simp add: loadTasks_def Let_def)

lemma handleCreateTask_failure:
  assumes "user s = Some u" and "tr (form_title (taskForm s)) \<noteq> []"
    and "error (createTask r (taskData u (taskForm s))) = Some e"
  shows "handleCreateTask tr r s =
           toast \<lparr>toast_title = ''Error creating task'', toast_description = message e,
                  variant = Destructive\<rparr> (issue (CreateTask (taskData u (taskForm s))) s)"
  using assms by (simp add: handleCreateTask_def Let_def)

lemma handleUpdateTask_failure:
  assumes "editingTask s = Some et"
    and "error (updateTask r (task_id et) (taskForm s)) = Some e"
  shows "handleUpdateTask r s =
           toast \<lparr>toast_title = ''Error updating task'', toast_description = message e,
                  variant = Destructive\<rparr> (issue (UpdateTask (task_id et) (taskForm s)) s)"
  using assms by (simp add: handleUpdateTask_def Let_def)

lemma handleDeleteTask_failure:
  assumes "error (deleteTask r taskId) = Some e"
  shows "handleDeleteTask r taskId s =
           toast \<lparr>toast_title = ''Error deleting task'', toast_description = message e,
                  variant = Destructive\<rparr> (issue (DeleteTask taskId) s)"
  using assms by (simp add: handleDeleteTask_def Let_def)

lemma tasks_toast_issue [simp]: "tasks (toast m (issue c s)) = tasks s"
  by (simp add: toast_def issue_def)

lemma toasts_toast_issue [simp]: "toasts (toast m (issue c s)) = toasts s @ [m]"
  by (simp add: toast_def issue_def)

text \<open>
  The task sequence changes only through a task list that was fetched without an error:
  when the fetch fails, every handler leaves the sequence as it was, whether its own
  request succeeded, failed or was not made.
\<close>

lemma tasks_kept_when_fetch_fails:
  assumes "user s = Some u" and "error (getTasks r (uid u)) = Some e"
  shows "tasks (loadTasks r s) = tasks s"
    and "tasks (handleCreateTask tr r s) = tasks s"
    and "tasks (handleUpdateTask r s) = tasks s"
    and "tasks (handleDeleteTask r taskId s) = tasks s"
  using assms
  by (simp_all add: loadTasks_def handleCreateTask_def handleUpdateTask_def
        handleDeleteTask_def toast_def issue_def Let_def split: option.splits)

lemma trim_title1: "ascii_trim ''Write spec'' = ''Write spec''"
  by code_simp

lemma trim_blank: "ascii_trim ''  '' = []"
  by code_simp

lemma editing_fields:
  "user editing = Some demo_user" "editingTask editing = Some task1"
  "tasks editing = [task1, task2]" "toasts editing = []" "calls editing = []"
  "taskForm editing =
     \<lparr>form_title = ''Write spec'', form_description = '''', form_status = ''pending'',
      form_priority = ''high'', form_due_date = ''''\<rparr>"
  by (simp_all add: editing_def openTaskDialog_def demo_def initial_def task1_def)

lemma failing_remote_errors:
  "error (getTasks failing_remote i) = Some denied"
  "error (createTask failing_remote td) = Some denied"
  "error (updateTask failing_remote i f) = Some denied"
  "error (deleteTask failing_remote i) = Some denied"
  "error (getProfile failing_remote i) = Some denied"
  by (simp_all add: failing_remote_def)

lemma ok_remote_answers:
  "getTasks (ok_remote ts) i = \<lparr>data = Some ts, error = None\<rparr>"
  "error (createTask (ok_remote ts) td) = None"
  "error (updateTask (ok_remote ts) i f) = None"
  "error (deleteTask (ok_remote ts) i) = None"
  "getProfile (ok_remote ts) i = \<lparr>data = Some demo_profile, error = None\<rparr>"
  by (simp_all add: ok_remote_def)

text \<open>
  Claim C3. Whatever the local task sequence, when the remote call issued by the refresh
  (\<open>loadTasks\<close>), by the creation, by the update or by the removal of a task answers with
  an error, the task sequence after the handler is the task sequence before it, and the
  handler has raised exactly one notification, of the destructive variant, whose
  description is the message of the remote error. A creation issues its call when a user
  is signed in and the trimmed title is not empty, an update when a task is being edited.
\<close>

theorem failed_call_isolated:
  "(user s = Some u \<and> error (getTasks r (uid u)) = Some e \<longrightarrow>
      tasks (loadTasks r s) = tasks s \<and>
      toasts (loadTasks r s) = toasts s @
        [\<lparr>toast_title = ''Error loading tasks'', toast_description = message e,
          variant = Destructive\<rparr>]) \<and>
   (user s = Some u \<and> tr (form_title (taskForm s)) \<noteq> [] \<and>
    error (createTask r (taskData u (taskForm s))) = Some e \<longrightarrow>
      tasks (handleCreateTask tr r s) = tasks s \<and>
      toasts (handleCreateTask tr r s) = toasts s @
        [\<lparr>toast_title = ''Error creating task'', toast_description = message e,
          variant = Destructive\<rparr>]) \<and>
   (editingTask s = Some et \<and> error (updateTask r (task_id et) (taskForm s)) = Some e \<longrightarrow>
      tasks (handleUpdateTask r s) = tasks s \<and>
      toasts (handleUpdateTask r s) = toasts s @
        [\<lparr>toast_title = ''Error updating task'', toast_description = message e,
          variant = Destructive\<rparr>]) \<and>
   (error (deleteTask r taskId) = Some e \<longrightarrow>
      tasks (handleDeleteTask r taskId s) = tasks s \<and>
      toasts (handleDeleteTask r taskId s) = toasts s @
        [\<lparr>toast_title = ''Error deleting task'', toast_description = message e,
          variant = Destructive\<rparr>])"
  by (simp add: loadTasks_failure handleCreateTask_failure handleUpdateTask_failure
                handleDeleteTask_failure)

theorem failed_call_isolated_witness:
  "tasks (loadTasks failing_remote editing) = [task1, task2] \<and>
   toasts (loadTasks failing_remote editing) =
     [\<lparr>toast_title = ''Error loading tasks'', toast_description = ''permission denied'',
       variant = Destructive\<rparr>] \<and>
   tasks (handleCreateTask ascii_trim failing_remote editing) = [task1, task2] \<and>
   toasts (handleCreateTask ascii_trim failing_remote editing) =
     [\<lparr>toast_title = ''Error creating task'', toast_description = ''permission denied'',
       variant = Destructive\<rparr>] \<and>
   tasks (handleUpdateTask failing_remote editing) = [task1, task2] \<and>
   toasts (handleUpdateTask failing_remote editing) =
     [\<lparr>toast_title = ''Error updating task'', toast_description = ''permission denied'',
       variant = Destructive\<rparr>] \<and>
   tasks (handleDeleteTask failing_remote ''1'' editing) = [task1, task2] \<and>
   toasts (handleDeleteTask failing_remote ''1'' editing) =
     [\<lparr>toast_title = ''Error deleting task'', toast_description = ''permission denied'',
       variant = Destructive\<rparr>]"
  using failed_call_isolated [of editing demo_user failing_remote denied ascii_trim task1 "''1''"]
  by (simp add: editing_fields failing_remote_errors trim_title1 denied_def)

section \<open>Submission of the task dialog\<close>

text \<open>
  The creation handler returns at once on a blank title, and never hands an empty due date
  to the remote.
\<close>

lemma handleCreateTask_blank_title:
  "tr (form_title (taskForm s)) = [] \<Longrightarrow> handleCreateTask tr r s = s"
  by (simp add: handleCreateTask_def split: option.splits)

lemma taskData_due_date:
  "data_due_date (taskData u f) = (if form_due_date f = [] then None else Some (form_due_date f))"
  "data_due_date (taskData u f) \<noteq> Some []"
  by (simp_all add: taskData_def)

text \<open>
  Claim C4 asks that neither submission handler calls the remote when the trimmed title
  is empty. The update handler has no such guard. Here the first task is opened for
  editing, its title is overwritten with two blanks and the dialog is submitted: the
  update request goes out with the blank title, the remote accepts it, the success
  notification is raised and the task list is fetched again.
\<close>

theorem handleUpdateTask_sends_blank_title:
  "editingTask blank_edit = Some task1 \<and>
   ascii_trim (form_title (taskForm blank_edit)) = [] \<and>
   calls (submitTaskDialog ascii_trim (ok_remote [task1, task2]) blank_edit) =
     [UpdateTask ''1''
        \<lparr>form_title = ''  '', form_description = '''', form_status = ''pending'',
         form_priority = ''high'', form_due_date = ''''\<rparr>,
      GetTasks ''u1''] \<and>
   toasts (submitTaskDialog ascii_trim (ok_remote [task1, task2]) blank_edit) =
     [\<lparr>toast_title = ''Task updated'',
       toast_description = ''Your task has been updated successfully.'',
       variant = Default\<rparr>]"
proof -
  have f: "editingTask blank_edit = Some task1" "user blank_edit = Some demo_user"
    "calls blank_edit = []" "toasts blank_edit = []"
    "taskForm blank_edit =
       \<lparr>form_title = ''  '', form_description = '''', form_status = ''pending'',
        form_priority = ''high'', form_due_date = ''''\<rparr>"
    by (simp_all add: blank_edit_def changeTitle_def editing_def openTaskDialog_def
          demo_def initial_def task1_def)
  show ?thesis
    by (simp add: f trim_blank submitTaskDialog_def handleUpdateTask_def loadTasks_def
          toast_def issue_def Let_def ok_remote_answers task1_def demo_user_def)
qed

text \<open>
  Claim C5 asks that an empty due-date string is replaced by \<open>null\<close> in the payload of
  both submission handlers. The update handler hands the buffer over as it is. Here the
  first task, which has no due date, is opened for editing (the buffer then holds the
  empty string) and the dialog is submitted with no further input: the payload of the
  update request carries the empty string as its due date.
\<close>

theorem handleUpdateTask_sends_empty_due_date:
  "due_date task1 = None \<and>
   form_due_date (taskForm editing) = [] \<and>
   calls (submitTaskDialog ascii_trim (ok_remote [task1, task2]) editing) =
     [UpdateTask ''1''
        \<lparr>form_title = ''Write spec'', form_description = '''', form_status = ''pending'',
         form_priority = ''high'', form_due_date = ''''\<rparr>,
      GetTasks ''u1'']"
  by (simp add: editing_fields submitTaskDialog_def handleUpdateTask_def loadTasks_def
        toast_def issue_def Let_def ok_remote_answers task1_def demo_user_def)

section \<open>Failure of a load\<close>

lemma loadProfile_failure:
  assumes "user s = Some u" and "error (getProfile r (uid u)) = Some e"
  shows "loadProfile r s =
           s\<lparr>calls := calls s @ [GetProfile (uid u)],
             console := console s @
               [\<lparr>console_text = ''Error loading profile:'', console_error = e\<rparr>]\<rparr>"
  using assms by (simp add: loadProfile_def issue_def Let_def)

text \<open>
  Claim C6 as stated has the profile button show the placeholder after every failing
  profile load. A profile that was loaded before stays in place when a later load fails,
  and the button goes on showing its name: here the first load succeeds and the second one
  fails.
\<close>

theorem loadProfile_failure_keeps_name:
  "user demo = Some demo_user \<and>
   error (getProfile failing_remote (uid demo_user)) = Some denied \<and>
   profileLabel (loadProfile (ok_remote []) demo) = ''Ann Lee'' \<and>
   profileLabel (loadProfile failing_remote (loadProfile (ok_remote []) demo)) = ''Ann Lee'' \<and>
   profileLabel (loadProfile failing_remote (loadProfile (ok_remote []) demo)) \<noteq> ''Profile''"
  by (simp add: loadProfile_def issue_def Let_def profileLabel_def ok_remote_answers
        failing_remote_errors demo_def initial_def demo_profile_def)

text \<open>
  Claim C6, amended. A failing profile load writes one line with the error to the console
  and changes nothing else in the state of the component: no notification is raised, the
  profile and the profile form are as before, and the profile button shows what it showed
  before the call, which is the placeholder when no profile was held. A failing task load
  raises a notification whose description is the message of the remote error.
\<close>

theorem load_failures_reported:
  "(user s = Some u \<and> error (getProfile r (uid u)) = Some e \<longrightarrow>
      loadProfile r s =
        s\<lparr>calls := calls s @ [GetProfile (uid u)],
          console := console s @
            [\<lparr>console_text = ''Error loading profile:'', console_error = e\<rparr>]\<rparr> \<and>
      toasts (loadProfile r s) = toasts s \<and>
      profile (loadProfile r s) = profile s \<and>
      profileForm (loadProfile r s) = profileForm s \<and>
      profileLabel (loadProfile r s) = profileLabel s \<and>
      (profile s = None \<longrightarrow> profileLabel (loadProfile r s) = ''Profile'')) \<and>
   (user s = Some u \<and> error (getTasks r (uid u)) = Some e \<longrightarrow>
      toasts (loadTasks r s) = toasts s @
        [\<lparr>toast_title = ''Error loading tasks'', toast_description = message e,
          variant = Destructive\<rparr>])"
  by (simp add: loadProfile_failure loadTasks_failure profileLabel_def)

theorem load_failures_reported_witness:
  "console (loadProfile failing_remote demo) =
     [\<lparr>console_text = ''Error loading profile:'', console_error = denied\<rparr>] \<and>
   toasts (loadProfile failing_remote demo) = [] \<and>
   profile (loadProfile failing_remote demo) = None \<and>
   profileLabel (loadProfile failing_remote demo) = ''Profile'' \<and>
   toasts (loadTasks failing_remote demo) =
     [\<lparr>toast_title = ''Error loading tasks'', toast_description = ''permission denied'',
       variant = Destructive\<rparr>]"
proof -
  have h: "user demo = Some demo_user" "profile demo = None" "toasts demo = []"
    "console demo = []"
    by (simp_all add: demo_def initial_def)
  from load_failures_reported [of demo demo_user failing_remote denied] h
  show ?thesis by (simp add: failing_remote_errors denied_def profileLabel_def)
qed

section \<open>Refresh\<close>

text \<open>
  Claim C7. Against one fixed remote, a second refresh right after the first leaves the
  task sequence that the first one produced; when the remote answers with the sequence
  \<open>ts\<close>, the task sequence is \<open>ts\<close> after the first refresh and after the second,
  whatever it was before.
\<close>

theorem loadTasks_idempotent:
  "tasks (loadTasks r (loadTasks r s)) = tasks (loadTasks r s) \<and>
   (user s = Some u \<and> getTasks r (uid u) = \<lparr>data = Some ts, error = None\<rparr> \<longrightarrow>
      tasks (loadTasks r s) = ts \<and> tasks (loadTasks r (loadTasks r s)) = ts)"
  by (simp add: loadTasks_def toast_def issue_def Let_def split: option.splits)

theorem loadTasks_idempotent_witness:
  "tasks demo = [task1, task2] \<and>
   tasks (loadTasks (ok_remote [task2]) demo) = [task2] \<and>
   tasks (loadTasks (ok_remote [task2]) (loadTasks (ok_remote [task2]) demo)) = [task2]"
proof -
  have h: "user demo = Some demo_user" "tasks demo = [task1, task2]"
    by (simp_all add: demo_def initial_def)
  from loadTasks_idempotent [of "ok_remote [task2]" demo demo_user "[task2]"] h
  show ?thesis by (simp add: ok_remote_answers)
qed

text \<open>
  Claim C8. When the task list answers without an error and with \<open>null\<close> as its payload,
  the refresh sets the task sequence to the empty sequence, and raises no notification.
\<close>

theorem loadTasks_null_data:
  assumes "user s = Some u" and "getTasks r (uid u) = \<lparr>data = None, error = None\<rparr>"
  shows "tasks (loadTasks r s) = [] \<and> toasts (loadTasks r s) = toasts s"
  using assms by (simp add: loadTasks_def issue_def Let_def)

theorem loadTasks_null_data_witness:
  "user demo = Some demo_user \<and>
   getTasks null_remote (uid demo_user) = \<lparr>data = None, error = None\<rparr> \<and>
   tasks demo = [task1, task2] \<and>
   tasks (loadTasks null_remote demo) = []"
proof -
  have h: "user demo = Some demo_user"
    "getTasks null_remote (uid demo_user) = \<lparr>data = None, error = None\<rparr>"
    by (simp_all add: demo_def initial_def null_remote_def)
  have "tasks demo = [task1, task2]" by (simp add: demo_def initial_def)
  with loadTasks_null_data [OF h] h show ?thesis by simp
qed

end
